theory Spec2Isabelle
  imports Main
begin

section \<open>Vocabulary of the provisioning framework\<close>

text \<open>
  The stack of \<^verbatim>\<open>static_site_stack.py\<close> is one constructor that declares resources
  in a scope. The framework's enumerations are datatypes carrying the members the
  framework offers, so that the member the source picks is one choice among several.
  Python integers are \<open>int\<close>, strings are \<open>string\<close>, and an optional keyword argument
  (\<^verbatim>\<open>str | None = None\<close>) is a \<open>string option\<close>.
\<close>

datatype Duration = Duration_days int | Duration_minutes int

datatype RemovalPolicy = DESTROY | RETAIN | SNAPSHOT | RETAIN_ON_UPDATE_OR_DELETE

datatype BlockPublicAccess = BLOCK_ALL | BLOCK_ACLS

datatype BucketEncryption = UNENCRYPTED | S3_MANAGED | KMS_MANAGED | KMS | DSSE_MANAGED | DSSE

datatype ObjectOwnership = BUCKET_OWNER_ENFORCED | BUCKET_OWNER_PREFERRED | OBJECT_WRITER

datatype ViewerProtocolPolicy = HTTPS_ONLY | REDIRECT_TO_HTTPS | ALLOW_ALL

datatype ResponseHeadersPolicy =
    CORS_ALLOW_ALL_ORIGINS
  | CORS_ALLOW_ALL_ORIGINS_WITH_PREFLIGHT
  | SECURITY_HEADERS
  | CORS_ALLOW_ALL_ORIGINS_AND_SECURITY_HEADERS
  | CORS_ALLOW_ALL_ORIGINS_WITH_PREFLIGHT_AND_SECURITY_HEADERS

datatype ComparisonOperator =
    GREATER_THAN_OR_EQUAL_TO_THRESHOLD
  | GREATER_THAN_THRESHOLD
  | LESS_THAN_THRESHOLD
  | LESS_THAN_OR_EQUAL_TO_THRESHOLD

datatype TreatMissingData = BREACHING | NOT_BREACHING | IGNORE | MISSING

text \<open>
  A resource declared in the scope is named by its construct id. A bucket, a zone or the
  distribution is referred to through that id; the distribution holds its certificate
  itself. A value that is known only at deployment
  (\<^verbatim>\<open>distribution.distribution_id\<close>, \<^verbatim>\<open>site_bucket.bucket_name\<close>) is an
  \<open>Attribute\<close> of the resource that will produce it.
\<close>

type_synonym construct_ref = string

datatype token = Literal string | Attribute construct_ref string

text \<open>
  How the constructor can exit with an exception. \<open>ValueError\<close> is the exception the
  source raises itself (line 121), with its message. The other two come out of a call the
  source makes: \<open>TypeError\<close> is the interpreter refusing a call in which a keyword is
  given twice (it carries the keyword), \<open>FrameworkError\<close> is whatever the framework
  raises when it refuses what it is handed (it carries the framework's message).
\<close>

datatype error = ValueError string | TypeError string | FrameworkError string

section \<open>Resource declarations\<close>

record LifecycleRule =
  rule_expiration :: "Duration option"
  rule_abort_incomplete_multipart_upload_after :: "Duration option"
  rule_noncurrent_version_expiration :: "Duration option"

record Bucket =
  bucket_construct_id :: string
  bucket_block_public_access :: BlockPublicAccess
  bucket_encryption :: BucketEncryption
  bucket_enforce_ssl :: bool
  bucket_removal_policy :: RemovalPolicy
  bucket_auto_delete_objects :: bool
  bucket_object_ownership :: "ObjectOwnership option"
  bucket_server_access_logs_bucket :: "construct_ref option"
  bucket_versioned :: bool
  bucket_lifecycle_rules :: "LifecycleRule list"

record HostedZone =
  zone_construct_id :: string
  zone_hosted_zone_id :: string
  zone_zone_name :: string

datatype CertificateValidation = CertificateValidation_from_dns construct_ref

datatype ICertificate =
    Certificate_from_certificate_arn string string
  | Certificate string string "string list" CertificateValidation

datatype IOrigin = S3BucketOrigin_with_origin_access_control construct_ref

record BehaviorOptions =
  behavior_origin :: IOrigin
  behavior_viewer_protocol_policy :: ViewerProtocolPolicy
  behavior_response_headers_policy :: ResponseHeadersPolicy

record ErrorResponse =
  error_http_status :: int
  error_response_http_status :: int
  error_response_page_path :: string
  error_ttl :: Duration

record Distribution =
  distribution_construct_id :: string
  distribution_default_behavior :: BehaviorOptions
  distribution_domain_names :: "string list"
  distribution_certificate :: ICertificate
  distribution_default_root_object :: string
  distribution_error_responses :: "ErrorResponse list"
  distribution_web_acl_id :: "string option"

record Metric =
  metric_namespace :: string
  metric_metric_name :: string
  metric_dimensions_map :: "(string \<times> token) list"
  metric_statistic :: string
  metric_period :: Duration
  metric_label :: "string option"

record Alarm =
  alarm_construct_id :: string
  alarm_metric :: Metric
  alarm_threshold :: int
  alarm_evaluation_periods :: int
  alarm_comparison_operator :: ComparisonOperator
  alarm_alarm_description :: string
  alarm_treat_missing_data :: TreatMissingData

record GraphWidget =
  widget_title :: string
  widget_width :: int
  widget_left :: "Metric list"

record Dashboard =
  dashboard_construct_id :: string
  dashboard_dashboard_name :: string
  dashboard_widgets :: "GraphWidget list list"

datatype IAliasRecordTarget = CloudFrontTarget construct_ref

datatype RecordTarget = RecordTarget_from_alias IAliasRecordTarget

record RecordProps =
  record_construct_id :: string
  record_zone :: construct_ref
  record_record_name :: "string option"
  record_target :: RecordTarget

datatype ISource = Source_asset string

record BucketDeployment =
  deployment_construct_id :: string
  deployment_sources :: "ISource list"
  deployment_destination_bucket :: construct_ref
  deployment_distribution :: construct_ref
  deployment_distribution_paths :: "string list"

record CfnOutput =
  output_construct_id :: string
  output_value :: token
  output_description :: string

text \<open>
  What the constructor can add to its scope, one constructor per framework class the
  source instantiates. \<open>route53_HostedZone\<close> is the zone imported by
  \<^verbatim>\<open>HostedZone.from_hosted_zone_attributes\<close>; \<open>acm_Certificate\<close> holds either the
  certificate imported by \<^verbatim>\<open>Certificate.from_certificate_arn\<close> or a new one.
\<close>

datatype construct =
    s3_Bucket Bucket
  | route53_HostedZone HostedZone
  | acm_Certificate ICertificate
  | cloudfront_Distribution Distribution
  | cloudwatch_Alarm Alarm
  | cloudwatch_Dashboard Dashboard
  | route53_ARecord RecordProps
  | route53_AaaaRecord RecordProps
  | s3deploy_BucketDeployment BucketDeployment
  | cdk_CfnOutput CfnOutput

datatype suppression_target = On_resource construct_ref | On_stack

record Stack =
  stack_construct_id :: string
  stack_description :: string
  stack_kwargs :: "(string \<times> string) list"
  children :: "construct list"
  nag_suppressions :: "(suppression_target \<times> string) list"

text \<open>
  The arguments of \<^verbatim>\<open>StaticSiteStack.__init__\<close>, with the source's names.
  \<open>kwargs\<close> holds the further keyword arguments of the call (\<^verbatim>\<open>**kwargs\<close>), each
  a keyword and a rendering of its value; the constructor hands them to the framework's
  \<^verbatim>\<open>Stack\<close> without looking at the values.
\<close>

record StaticSiteStackProps =
  construct_id :: string
  domain_name :: string
  dist_path :: string
  hosted_zone_id :: "string option"
  certificate_arn :: "string option"
  web_acl_id :: "string option"
  dashboard_name :: "string option"
  kwargs :: "(string \<times> string) list"

text \<open>
  The framework is not part of the repository, and it can refuse what the constructor
  hands it (an asset directory that does not exist, a certificate it cannot use, an id
  already taken, an option it does not know). It is a parameter of the model: for the
  call that creates the scope, for each instantiation of a framework class in the scope
  as it stands, and for each call that adds suppressions, it says whether the call
  raises, and with which message. A refusal while the arguments of an instantiation are
  evaluated (\<^verbatim>\<open>Source.asset\<close>, \<^verbatim>\<open>CloudFrontTarget\<close>, an attribute of a resource)
  counts as a refusal of that instantiation.
\<close>

record Framework =
  refuse_Stack :: "string \<Rightarrow> string \<Rightarrow> (string \<times> string) list \<Rightarrow> string option"
  refuse_construct :: "Stack \<Rightarrow> construct \<Rightarrow> string option"
  refuse_suppressions :: "Stack \<Rightarrow> suppression_target \<Rightarrow> string list \<Rightarrow> string option"

text \<open>The framework that refuses nothing.\<close>

definition accepting :: Framework where
  "accepting =
     \<lparr>refuse_Stack = (\<lambda>cid descr kw. None),
      refuse_construct = (\<lambda>self c. None),
      refuse_suppressions = (\<lambda>self t ids. None)\<rparr>"

section \<open>Python and framework primitives\<close>

text \<open>
  \<^verbatim>\<open>if x:\<close> on a \<^verbatim>\<open>str | None\<close> holds for a non-empty string only: \<open>None\<close> and
  the empty string are both false. \<open>truthy\<close> returns the string when the test holds.
\<close>

definition truthy :: "string option \<Rightarrow> string option" where
  "truthy x = (case x of None \<Rightarrow> None | Some s \<Rightarrow> if s = [] then None else Some s)"

text \<open>\<^verbatim>\<open>a or b\<close> is \<open>a\<close> when \<open>a\<close> is true and \<open>b\<close> otherwise.\<close>

definition py_or :: "string option \<Rightarrow> string \<Rightarrow> string" where
  "py_or a b = (case truthy a of Some s \<Rightarrow> s | None \<Rightarrow> b)"

text \<open>\<^verbatim>\<open>s.replace(old, new)\<close> for one-character \<open>old\<close> and \<open>new\<close>.\<close>

definition str_replace :: "char \<Rightarrow> char \<Rightarrow> string \<Rightarrow> string" where
  "str_replace old new s = map (\<lambda>c. if c = old then new else c) s"

text \<open>
  Sequencing: the statements after a call run only when the call returns. An exit with
  an exception carries the scope as it stands then, since the constructor has no handler.
\<close>

definition and_then ::
    "(error \<times> Stack) + Stack \<Rightarrow> (Stack \<Rightarrow> (error \<times> Stack) + Stack) \<Rightarrow> (error \<times> Stack) + Stack" where
  "and_then r f = (case r of Inl x \<Rightarrow> Inl x | Inr self \<Rightarrow> f self)"

text \<open>
  Line 34, \<^verbatim>\<open>super().__init__(scope, construct_id, description=..., **kwargs)\<close>. The
  call passes \<^verbatim>\<open>description\<close> itself, so the interpreter refuses it when
  \<^verbatim>\<open>kwargs\<close> has that keyword too; otherwise the framework decides. When the call
  returns, the scope is empty.
\<close>

definition Stack_init ::
    "Framework \<Rightarrow> string \<Rightarrow> string \<Rightarrow> (string \<times> string) list \<Rightarrow> (error \<times> Stack) + Stack" where
  "Stack_init fw cid descr kw =
     (let self = \<lparr>stack_construct_id = cid, stack_description = descr, stack_kwargs = kw,
                  children = [], nag_suppressions = []\<rparr>
      in if ''description'' \<in> set (map fst kw) then Inl (TypeError ''description'', self)
         else case refuse_Stack fw cid descr kw of
                Some msg \<Rightarrow> Inl (FrameworkError msg, self)
              | None \<Rightarrow> Inr self)"

text \<open>Instantiating a framework class with scope \<^verbatim>\<open>self\<close> appends it to the scope.\<close>

definition add_child :: "construct \<Rightarrow> Stack \<Rightarrow> Stack" where
  "add_child c self = self\<lparr>children := children self @ [c]\<rparr>"

text \<open>
  A run of instantiations, in order: each is appended to the scope unless the framework
  refuses it, which ends the run with what was declared before it.
\<close>

fun declare_all :: "Framework \<Rightarrow> construct list \<Rightarrow> Stack \<Rightarrow> (error \<times> Stack) + Stack" where
  "declare_all fw [] self = Inr self"
| "declare_all fw (c # cs) self =
     (case refuse_construct fw self c of
        Some msg \<Rightarrow> Inl (FrameworkError msg, self)
      | None \<Rightarrow> declare_all fw cs (add_child c self))"

text \<open>
  \<^verbatim>\<open>NagSuppressions.add_resource_suppressions\<close> and
  \<^verbatim>\<open>NagSuppressions.add_stack_suppressions\<close>: the rule ids are recorded for the target.
\<close>

definition add_suppressions ::
    "Framework \<Rightarrow> suppression_target \<Rightarrow> string list \<Rightarrow> Stack \<Rightarrow> (error \<times> Stack) + Stack" where
  "add_suppressions fw t ids self =
     (case refuse_suppressions fw self t ids of
        Some msg \<Rightarrow> Inl (FrameworkError msg, self)
      | None \<Rightarrow> Inr (self\<lparr>nag_suppressions := nag_suppressions self @ map (\<lambda>i. (t, i)) ids\<rparr>))"

definition distribution_id :: "Distribution \<Rightarrow> token" where
  "distribution_id d = Attribute (distribution_construct_id d) ''distribution_id''"

definition distribution_domain_name :: "Distribution \<Rightarrow> token" where
  "distribution_domain_name d = Attribute (distribution_construct_id d) ''distribution_domain_name''"

definition bucket_name :: "Bucket \<Rightarrow> token" where
  "bucket_name b = Attribute (bucket_construct_id b) ''bucket_name''"

section \<open>The resources of the stack\<close>

text \<open>Lines 46-59: the bucket that receives the site bucket's server access logs.\<close>

definition s3_access_logs_bucket :: Bucket where
  "s3_access_logs_bucket =
     \<lparr>bucket_construct_id = ''S3AccessLogsBucket'',
      bucket_block_public_access = BLOCK_ALL,
      bucket_encryption = S3_MANAGED,
      bucket_enforce_ssl = True,
      bucket_removal_policy = RETAIN,
      bucket_auto_delete_objects = False,
      bucket_object_ownership = None,
      bucket_server_access_logs_bucket = None,
      bucket_versioned = False,
      bucket_lifecycle_rules =
        [\<lparr>rule_expiration = Some (Duration_days 180),
          rule_abort_incomplete_multipart_upload_after = None,
          rule_noncurrent_version_expiration = None\<rparr>]\<rparr>"

text \<open>Lines 62-76: the bucket for the distribution's access logs.\<close>

definition cloudfront_logs_bucket :: Bucket where
  "cloudfront_logs_bucket =
     \<lparr>bucket_construct_id = ''CloudFrontLogsBucket'',
      bucket_block_public_access = BLOCK_ALL,
      bucket_encryption = KMS_MANAGED,
      bucket_enforce_ssl = True,
      bucket_removal_policy = RETAIN,
      bucket_auto_delete_objects = False,
      bucket_object_ownership = Some BUCKET_OWNER_PREFERRED,
      bucket_server_access_logs_bucket = None,
      bucket_versioned = False,
      bucket_lifecycle_rules =
        [\<lparr>rule_expiration = Some (Duration_days 180),
          rule_abort_incomplete_multipart_upload_after = None,
          rule_noncurrent_version_expiration = None\<rparr>]\<rparr>"

text \<open>Lines 79-95: the bucket for the site's assets.\<close>

definition site_bucket :: Bucket where
  "site_bucket =
     \<lparr>bucket_construct_id = ''SiteBucket'',
      bucket_block_public_access = BLOCK_ALL,
      bucket_encryption = S3_MANAGED,
      bucket_enforce_ssl = True,
      bucket_removal_policy = DESTROY,
      bucket_auto_delete_objects = True,
      bucket_object_ownership = None,
      bucket_server_access_logs_bucket = Some (bucket_construct_id s3_access_logs_bucket),
      bucket_versioned = True,
      bucket_lifecycle_rules =
        [\<lparr>rule_expiration = None,
          rule_abort_incomplete_multipart_upload_after = Some (Duration_days 1),
          rule_noncurrent_version_expiration = Some (Duration_days 30)\<rparr>]\<rparr>"

text \<open>
  Lines 97-105: the local \<^verbatim>\<open>hosted_zone\<close> is the imported zone when
  \<^verbatim>\<open>hosted_zone_id\<close> is true, else \<^verbatim>\<open>None\<close>.
\<close>

definition lookup_hosted_zone :: "StaticSiteStackProps \<Rightarrow> HostedZone option" where
  "lookup_hosted_zone p =
     (case truthy (hosted_zone_id p) of
        Some zid \<Rightarrow>
          Some \<lparr>zone_construct_id = ''Zone'',
                zone_hosted_zone_id = zid,
                zone_zone_name = domain_name p\<rparr>
      | None \<Rightarrow> None)"

text \<open>
  Lines 107-124: the certificate is the imported one when \<^verbatim>\<open>certificate_arn\<close> is
  true, else a new one validated through the zone when there is a zone, else the
  constructor raises.
\<close>

definition resolve_certificate ::
    "StaticSiteStackProps \<Rightarrow> HostedZone option \<Rightarrow> error + ICertificate" where
  "resolve_certificate p hosted_zone =
     (case truthy (certificate_arn p) of
        Some arn \<Rightarrow> Inr (Certificate_from_certificate_arn ''Cert'' arn)
      | None \<Rightarrow>
          (case hosted_zone of
             Some z \<Rightarrow>
               Inr (Certificate ''SiteCertificate'' (domain_name p) [''www.'' @ domain_name p]
                      (CertificateValidation_from_dns (zone_construct_id z)))
           | None \<Rightarrow>
               Inl (ValueError
                 (''You must provide either certificate_arn or hosted_zone_id '' @
                  ''so a certificate can be created.''))))"

text \<open>Lines 127-153: the distribution in front of the site bucket.\<close>

definition site_distribution :: "StaticSiteStackProps \<Rightarrow> ICertificate \<Rightarrow> Distribution" where
  "site_distribution p certificate =
     \<lparr>distribution_construct_id = ''SiteDistribution'',
      distribution_default_behavior =
        \<lparr>behavior_origin =
           S3BucketOrigin_with_origin_access_control (bucket_construct_id site_bucket),
         behavior_viewer_protocol_policy = REDIRECT_TO_HTTPS,
         behavior_response_headers_policy = SECURITY_HEADERS\<rparr>,
      distribution_domain_names = [domain_name p, ''www.'' @ domain_name p],
      distribution_certificate = certificate,
      distribution_default_root_object = ''index.html'',
      distribution_error_responses =
        [\<lparr>error_http_status = 403,
          error_response_http_status = 200,
          error_response_page_path = ''/index.html'',
          error_ttl = Duration_minutes 5\<rparr>,
         \<lparr>error_http_status = 404,
          error_response_http_status = 200,
          error_response_page_path = ''/index.html'',
          error_ttl = Duration_minutes 5\<rparr>],
      distribution_web_acl_id = web_acl_id p\<rparr>"

text \<open>
  The metrics of lines 159-165, 176-182, 200-215 and 222-229 differ in their name,
  statistic and label only.
\<close>

definition cloudfront_metric ::
    "Distribution \<Rightarrow> string \<Rightarrow> string \<Rightarrow> string option \<Rightarrow> Metric" where
  "cloudfront_metric distribution name stat lbl =
     \<lparr>metric_namespace = ''AWS/CloudFront'',
      metric_metric_name = name,
      metric_dimensions_map = [(''DistributionId'', distribution_id distribution)],
      metric_statistic = stat,
      metric_period = Duration_minutes 5,
      metric_label = lbl\<rparr>"

text \<open>Lines 156-171.\<close>

definition High5xxErrorRate :: "Distribution \<Rightarrow> Alarm" where
  "High5xxErrorRate distribution =
     \<lparr>alarm_construct_id = ''High5xxErrorRate'',
      alarm_metric = cloudfront_metric distribution ''5xxErrorRate'' ''Average'' None,
      alarm_threshold = 5,
      alarm_evaluation_periods = 2,
      alarm_comparison_operator = GREATER_THAN_THRESHOLD,
      alarm_alarm_description = ''CloudFront 5xx error rate exceeded 5%'',
      alarm_treat_missing_data = NOT_BREACHING\<rparr>"

text \<open>Lines 173-188.\<close>

definition High4xxErrorRate :: "Distribution \<Rightarrow> Alarm" where
  "High4xxErrorRate distribution =
     \<lparr>alarm_construct_id = ''High4xxErrorRate'',
      alarm_metric = cloudfront_metric distribution ''4xxErrorRate'' ''Average'' None,
      alarm_threshold = 10,
      alarm_evaluation_periods = 2,
      alarm_comparison_operator = GREATER_THAN_THRESHOLD,
      alarm_alarm_description = ''CloudFront 4xx error rate exceeded 10%'',
      alarm_treat_missing_data = NOT_BREACHING\<rparr>"

text \<open>
  Line 43: \<^verbatim>\<open>(dashboard_name or domain_name).replace(".", "-")\<close>. The replacement is
  applied to whichever name the \<^verbatim>\<open>or\<close> selects.
\<close>

definition resolved_dashboard_name :: "StaticSiteStackProps \<Rightarrow> string" where
  "resolved_dashboard_name p =
     str_replace (CHR ''.'') (CHR ''-'') (py_or (dashboard_name p) (domain_name p))"

text \<open>Lines 190-234.\<close>

definition SiteDashboard :: "StaticSiteStackProps \<Rightarrow> Distribution \<Rightarrow> Dashboard" where
  "SiteDashboard p distribution =
     \<lparr>dashboard_construct_id = ''SiteDashboard'',
      dashboard_dashboard_name = resolved_dashboard_name p,
      dashboard_widgets =
        [[\<lparr>widget_title = ''CloudFront Error Rates'',
           widget_width = 12,
           widget_left =
             [cloudfront_metric distribution ''5xxErrorRate'' ''Average''
                (Some ''5xx Error Rate''),
              cloudfront_metric distribution ''4xxErrorRate'' ''Average''
                (Some ''4xx Error Rate'')]\<rparr>,
          \<lparr>widget_title = ''CloudFront Requests'',
           widget_width = 12,
           widget_left =
             [cloudfront_metric distribution ''Requests'' ''Sum''
                (Some ''Total Requests'')]\<rparr>]]\<rparr>"

text \<open>Lines 237-268: the four alias records, in the order the source declares them.\<close>

definition alias_records :: "HostedZone \<Rightarrow> Distribution \<Rightarrow> construct list" where
  "alias_records hosted_zone distribution =
     (let cf_target = CloudFrontTarget (distribution_construct_id distribution) in
      [route53_ARecord
         \<lparr>record_construct_id = ''ApexAlias'',
          record_zone = zone_construct_id hosted_zone,
          record_record_name = None,
          record_target = RecordTarget_from_alias cf_target\<rparr>,
       route53_AaaaRecord
         \<lparr>record_construct_id = ''ApexAliasIPv6'',
          record_zone = zone_construct_id hosted_zone,
          record_record_name = None,
          record_target = RecordTarget_from_alias cf_target\<rparr>,
       route53_ARecord
         \<lparr>record_construct_id = ''WwwAlias'',
          record_zone = zone_construct_id hosted_zone,
          record_record_name = Some ''www'',
          record_target = RecordTarget_from_alias cf_target\<rparr>,
       route53_AaaaRecord
         \<lparr>record_construct_id = ''WwwAliasIPv6'',
          record_zone = zone_construct_id hosted_zone,
          record_record_name = Some ''www'',
          record_target = RecordTarget_from_alias cf_target\<rparr>])"

text \<open>Lines 271-278.\<close>

definition DeploySite :: "StaticSiteStackProps \<Rightarrow> Distribution \<Rightarrow> BucketDeployment" where
  "DeploySite p distribution =
     \<lparr>deployment_construct_id = ''DeploySite'',
      deployment_sources = [Source_asset (dist_path p)],
      deployment_destination_bucket = bucket_construct_id site_bucket,
      deployment_distribution = distribution_construct_id distribution,
      deployment_distribution_paths = [''/*'']\<rparr>"

text \<open>Lines 300-333: the five outputs.\<close>

definition stack_outputs :: "StaticSiteStackProps \<Rightarrow> Distribution \<Rightarrow> construct list" where
  "stack_outputs p distribution =
     [cdk_CfnOutput
        \<lparr>output_construct_id = ''DistributionDomainName'',
         output_value = distribution_domain_name distribution,
         output_description = ''CloudFront URL''\<rparr>,
      cdk_CfnOutput
        \<lparr>output_construct_id = ''BucketName'',
         output_value = bucket_name site_bucket,
         output_description = ''S3 Bucket Name''\<rparr>,
      cdk_CfnOutput
        \<lparr>output_construct_id = ''SiteUrl'',
         output_value = Literal (''https://'' @ domain_name p),
         output_description = ''Site URL''\<rparr>,
      cdk_CfnOutput
        \<lparr>output_construct_id = ''CloudFrontLogsBucketName'',
         output_value = bucket_name cloudfront_logs_bucket,
         output_description = ''CloudFront Logs Bucket Name''\<rparr>,
      cdk_CfnOutput
        \<lparr>output_construct_id = ''S3AccessLogsBucketName'',
         output_value = bucket_name s3_access_logs_bucket,
         output_description = ''S3 Access Logs Bucket Name''\<rparr>]"

section \<open>The constructor\<close>

text \<open>
  \<^verbatim>\<open>StaticSiteStack.__init__\<close>, in the order of its statements. The scope \<^verbatim>\<open>self\<close>
  is threaded through. The result is the finished scope, or the exception together with
  the scope as it stands when the exception leaves the constructor: what was declared
  before stays declared. The constructor exits early in two ways only: through its own
  \<^verbatim>\<open>raise\<close> at line 121, and through a call that raises.
\<close>

definition StaticSiteStack_init ::
    "Framework \<Rightarrow> StaticSiteStackProps \<Rightarrow> (error \<times> Stack) + Stack" where
  "StaticSiteStack_init fw p =
     and_then
       (Stack_init fw (construct_id p) (''Static site hosting for '' @ domain_name p) (kwargs p))
       (\<lambda>self.
     and_then
       (declare_all fw
          [s3_Bucket s3_access_logs_bucket, s3_Bucket cloudfront_logs_bucket,
           s3_Bucket site_bucket] self)
       (\<lambda>self.
     (let hosted_zone = lookup_hosted_zone p in
     and_then
       (case hosted_zone of
          Some z \<Rightarrow> declare_all fw [route53_HostedZone z] self
        | None \<Rightarrow> Inr self)
       (\<lambda>self.
     (case resolve_certificate p hosted_zone of
        Inl e \<Rightarrow> Inl (e, self)
      | Inr certificate \<Rightarrow>
     (let distribution = site_distribution p certificate in
     and_then
       (declare_all fw
          ([acm_Certificate certificate,
            cloudfront_Distribution distribution,
            cloudwatch_Alarm (High5xxErrorRate distribution),
            cloudwatch_Alarm (High4xxErrorRate distribution),
            cloudwatch_Dashboard (SiteDashboard p distribution)]
           @ (case hosted_zone of
                Some z \<Rightarrow> alias_records z distribution
              | None \<Rightarrow> [])
           @ [s3deploy_BucketDeployment (DeploySite p distribution)]) self)
       (\<lambda>self.
     and_then
       (add_suppressions fw (On_resource (bucket_construct_id cloudfront_logs_bucket))
          [''AwsSolutions-S1''] self)
       (\<lambda>self.
     and_then
       (add_suppressions fw (On_resource (distribution_construct_id distribution))
          [''AwsSolutions-CFR3''] self)
       (\<lambda>self.
     and_then
       (add_suppressions fw On_stack
          [''AwsSolutions-IAM4'', ''AwsSolutions-IAM5'', ''AwsSolutions-L1''] self)
       (\<lambda>self.
     declare_all fw (stack_outputs p distribution) self))))))))))"

section \<open>Observing the outcome\<close>

text \<open>
  The exception raised, if any, whether it came out of a call (and not from the source's
  own \<^verbatim>\<open>raise\<close>), and the scope as it stands when the constructor exits.
\<close>

definition raised :: "(error \<times> Stack) + Stack \<Rightarrow> error option" where
  "raised r = (case r of Inl (e, g) \<Rightarrow> Some e | Inr g \<Rightarrow> None)"

fun from_call :: "error \<Rightarrow> bool" where
  "from_call (ValueError msg) = False"
| "from_call (TypeError kw) = True"
| "from_call (FrameworkError msg) = True"

definition raised_in_call :: "(error \<times> Stack) + Stack \<Rightarrow> bool" where
  "raised_in_call r = (case raised r of Some e \<Rightarrow> from_call e | None \<Rightarrow> False)"

definition scope_at_exit :: "(error \<times> Stack) + Stack \<Rightarrow> Stack" where
  "scope_at_exit r = (case r of Inl (e, g) \<Rightarrow> g | Inr g \<Rightarrow> g)"

text \<open>The entities of each kind in a scope, in declaration order.\<close>

fun as_bucket :: "construct \<Rightarrow> Bucket option" where
  "as_bucket (s3_Bucket b) = Some b"
| "as_bucket _ = None"

fun as_hosted_zone :: "construct \<Rightarrow> HostedZone option" where
  "as_hosted_zone (route53_HostedZone z) = Some z"
| "as_hosted_zone _ = None"

fun as_certificate :: "construct \<Rightarrow> ICertificate option" where
  "as_certificate (acm_Certificate c) = Some c"
| "as_certificate _ = None"

fun as_distribution :: "construct \<Rightarrow> Distribution option" where
  "as_distribution (cloudfront_Distribution d) = Some d"
| "as_distribution _ = None"

fun as_alarm :: "construct \<Rightarrow> Alarm option" where
  "as_alarm (cloudwatch_Alarm a) = Some a"
| "as_alarm _ = None"

fun as_dashboard :: "construct \<Rightarrow> Dashboard option" where
  "as_dashboard (cloudwatch_Dashboard d) = Some d"
| "as_dashboard _ = None"

datatype record_type = A | AAAA

fun as_dns_record :: "construct \<Rightarrow> (record_type \<times> RecordProps) option" where
  "as_dns_record (route53_ARecord r) = Some (A, r)"
| "as_dns_record (route53_AaaaRecord r) = Some (AAAA, r)"
| "as_dns_record _ = None"

fun as_deployment :: "construct \<Rightarrow> BucketDeployment option" where
  "as_deployment (s3deploy_BucketDeployment d) = Some d"
| "as_deployment _ = None"

definition buckets :: "Stack \<Rightarrow> Bucket list" where
  "buckets g = List.map_filter as_bucket (children g)"

definition hosted_zones :: "Stack \<Rightarrow> HostedZone list" where
  "hosted_zones g = List.map_filter as_hosted_zone (children g)"

definition certificates :: "Stack \<Rightarrow> ICertificate list" where
  "certificates g = List.map_filter as_certificate (children g)"

definition distributions :: "Stack \<Rightarrow> Distribution list" where
  "distributions g = List.map_filter as_distribution (children g)"

definition alarms :: "Stack \<Rightarrow> Alarm list" where
  "alarms g = List.map_filter as_alarm (children g)"

definition dashboards :: "Stack \<Rightarrow> Dashboard list" where
  "dashboards g = List.map_filter as_dashboard (children g)"

definition dns_records :: "Stack \<Rightarrow> (record_type \<times> RecordProps) list" where
  "dns_records g = List.map_filter as_dns_record (children g)"

definition deployments :: "Stack \<Rightarrow> BucketDeployment list" where
  "deployments g = List.map_filter as_deployment (children g)"

text \<open>The bucket declared under a construct id, if there is one.\<close>

definition find_bucket :: "string \<Rightarrow> Stack \<Rightarrow> Bucket option" where
  "find_bucket cid g = find (\<lambda>b. bucket_construct_id b = cid) (buckets g)"

text \<open>
  The inputs of the repository's tests (\<^verbatim>\<open>tests/test_static_site_stack.py\<close>); the
  asset directory is a temporary directory there. The tests that build a stack pass, so
  the framework accepts what the constructor hands it at these inputs.
\<close>

definition test_neither :: StaticSiteStackProps where
  "test_neither =
     \<lparr>construct_id = ''TestStack'', domain_name = ''example.com'', dist_path = ''/tmp/dist'',
      hosted_zone_id = None, certificate_arn = None, web_acl_id = None,
      dashboard_name = None, kwargs = []\<rparr>"

definition test_certificate_arn :: string where
  "test_certificate_arn = ''arn:aws:acm:us-east-1:123456789012:certificate/test-cert''"

definition test_web_acl_id :: string where
  "test_web_acl_id = ''arn:aws:wafv2:us-east-1:123456789012:global/webacl/test/abc123''"

definition test_with_certificate_arn :: StaticSiteStackProps where
  "test_with_certificate_arn = test_neither\<lparr>certificate_arn := Some test_certificate_arn\<rparr>"

definition test_with_hosted_zone :: StaticSiteStackProps where
  "test_with_hosted_zone =
     test_neither\<lparr>hosted_zone_id := Some ''Z1234567890'',
                  kwargs := [(''env'',
                    ''cdk.Environment(account=123456789012, region=us-east-1)'')]\<rparr>"

definition test_with_web_acl :: StaticSiteStackProps where
  "test_with_web_acl =
     test_neither\<lparr>certificate_arn := Some test_certificate_arn,
                  web_acl_id := Some test_web_acl_id\<rparr>"

definition test_with_dashboard_name :: StaticSiteStackProps where
  "test_with_dashboard_name =
     test_neither\<lparr>certificate_arn := Some test_certificate_arn,
                  dashboard_name := Some ''MyCustomDashboard''\<rparr>"

section \<open>How the scope grows\<close>

lemma and_then_Inr_iff: "and_then r f = Inr g \<longleftrightarrow> (\<exists>s. r = Inr s \<and> f s = Inr g)"
  by (cases r) (simp_all add: and_then_def)

lemma and_then_Inl_iff:
  "and_then r f = Inl x \<longleftrightarrow> r = Inl x \<or> (\<exists>s. r = Inr s \<and> f s = Inl x)"
  by (cases r) (simp_all add: and_then_def)

lemma take_prefix: "n \<le> length xs \<Longrightarrow> take n (xs @ ys) = take n xs"
  by simp

lemma children_add_child: "children (add_child c s) = children s @ [c]"
  by (simp add: add_child_def)

lemma Stack_init_Inr: "Stack_init fw cid descr kw = Inr g \<Longrightarrow> children g = []"
  by (auto simp: Stack_init_def Let_def split: if_splits option.splits)

lemma Stack_init_Inl:
  "Stack_init fw cid descr kw = Inl (e, g) \<Longrightarrow> from_call e \<and> children g = []"
  by (auto simp: Stack_init_def Let_def split: if_splits option.splits)

lemma declare_all_Inr: "declare_all fw cs s = Inr g \<Longrightarrow> children g = children s @ cs"
  by (induction cs arbitrary: s) (auto simp: children_add_child split: option.splits)

lemma declare_all_Inl:
  "declare_all fw cs s = Inl (e, g) \<Longrightarrow>
   from_call e \<and> (\<exists>n < length cs. children g = children s @ take n cs)"
proof (induction cs arbitrary: s)
  case Nil
  then show ?case by simp
next
  case (Cons c cs)
  show ?case
  proof (cases "refuse_construct fw s c")
    case None
    with Cons.prems have "declare_all fw cs (add_child c s) = Inl (e, g)" by simp
    from Cons.IH[OF this] obtain n where
      "from_call e" "n < length cs" "children g = children (add_child c s) @ take n cs"
      by blast
    then have "from_call e \<and> Suc n < length (c # cs) \<and>
               children g = children s @ take (Suc n) (c # cs)"
      by (simp add: children_add_child)
    then show ?thesis by blast
  next
    case (Some msg)
    with Cons.prems have "from_call e \<and> 0 < length (c # cs) \<and>
               children g = children s @ take 0 (c # cs)"
      by auto
    then show ?thesis by blast
  qed
qed

lemma add_suppressions_Inr: "add_suppressions fw t ids s = Inr g \<Longrightarrow> children g = children s"
  by (auto simp: add_suppressions_def split: option.splits)

lemma add_suppressions_Inl:
  "add_suppressions fw t ids s = Inl (e, g) \<Longrightarrow> from_call e \<and> g = s"
  by (auto simp: add_suppressions_def split: option.splits)

text \<open>With the framework that refuses nothing, every call returns.\<close>

lemma Stack_init_accepting:
  "''description'' \<notin> set (map fst kw) \<Longrightarrow>
   Stack_init accepting cid descr kw =
     Inr \<lparr>stack_construct_id = cid, stack_description = descr, stack_kwargs = kw,
          children = [], nag_suppressions = []\<rparr>"
  by (simp add: Stack_init_def accepting_def)

lemma declare_all_accepting:
  "declare_all accepting cs s = Inr (s\<lparr>children := children s @ cs\<rparr>)"
  by (induction cs arbitrary: s) (simp_all add: accepting_def add_child_def)

lemma add_suppressions_accepting:
  "add_suppressions accepting t ids s =
     Inr (s\<lparr>nag_suppressions := nag_suppressions s @ map (\<lambda>i. (t, i)) ids\<rparr>)"
  by (simp add: add_suppressions_def accepting_def)

text \<open>One-character replacement keeps the length and changes exactly the matching positions.\<close>

lemma str_replace_nth:
  "length (str_replace old new s) = length s \<and>
   (\<forall>i < length s. str_replace old new s ! i = (if s ! i = old then new else s ! i))"
  by (simp add: str_replace_def)

lemma str_replace_absent: "old \<notin> set s \<Longrightarrow> str_replace old new s = s"
  by (induction s) (auto simp: str_replace_def)

text \<open>Which branch the certificate resolution takes.\<close>

lemma truthy_None: "truthy None = None" "truthy (Some []) = None"
  by (simp_all add: truthy_def)

lemma resolve_certificate_arn:
  "certificate_arn p = Some arn \<Longrightarrow> arn \<noteq> [] \<Longrightarrow>
   resolve_certificate p z = Inr (Certificate_from_certificate_arn ''Cert'' arn)"
  by (simp add: resolve_certificate_def truthy_def)


lemma resolve_certificate_neither:
  "truthy (certificate_arn p) = None \<Longrightarrow>
   resolve_certificate p None =
     Inl (ValueError
       ''You must provide either certificate_arn or hosted_zone_id so a certificate can be created.'')"
  by (simp add: resolve_certificate_def)

text \<open>
  The source's own \<^verbatim>\<open>raise\<close> is reached exactly when both optional sources are
  false, the empty string counting as false.
\<close>

lemma own_raise_iff:
  "(\<exists>e. resolve_certificate p (lookup_hosted_zone p) = Inl e) \<longleftrightarrow>
     truthy (certificate_arn p) = None \<and> truthy (hosted_zone_id p) = None"
  by (auto simp: resolve_certificate_def lookup_hosted_zone_def split: option.splits)

lemma resolve_certificate_Inl: "resolve_certificate p z = Inl e \<Longrightarrow> \<not> from_call e"
  by (auto simp: resolve_certificate_def split: option.splits)

text \<open>
  The outcome of the constructor. When it returns, the certificate resolution returned a
  certificate and the scope holds the declarations below, in this order.
\<close>

lemma init_Inr:
  assumes "StaticSiteStack_init fw p = Inr g"
  shows "\<exists>certificate.
           resolve_certificate p (lookup_hosted_zone p) = Inr certificate \<and>
           children g =
             [s3_Bucket s3_access_logs_bucket, s3_Bucket cloudfront_logs_bucket,
              s3_Bucket site_bucket]
             @ (case lookup_hosted_zone p of Some z \<Rightarrow> [route53_HostedZone z] | None \<Rightarrow> [])
             @ [acm_Certificate certificate,
                cloudfront_Distribution (site_distribution p certificate),
                cloudwatch_Alarm (High5xxErrorRate (site_distribution p certificate)),
                cloudwatch_Alarm (High4xxErrorRate (site_distribution p certificate)),
                cloudwatch_Dashboard (SiteDashboard p (site_distribution p certificate))]
             @ (case lookup_hosted_zone p of
                  Some z \<Rightarrow> alias_records z (site_distribution p certificate)
                | None \<Rightarrow> [])
             @ [s3deploy_BucketDeployment (DeploySite p (site_distribution p certificate))]
             @ stack_outputs p (site_distribution p certificate)"
proof -
  from assms obtain s0 s1 s2 where
    s0: "Stack_init fw (construct_id p) (''Static site hosting for '' @ domain_name p)
           (kwargs p) = Inr s0" and
    s1: "declare_all fw
           [s3_Bucket s3_access_logs_bucket, s3_Bucket cloudfront_logs_bucket,
            s3_Bucket site_bucket] s0 = Inr s1" and
    s2: "(case lookup_hosted_zone p of
            Some z \<Rightarrow> declare_all fw [route53_HostedZone z] s1
          | None \<Rightarrow> Inr s1) = Inr s2" and
    rest: "(case resolve_certificate p (lookup_hosted_zone p) of
        Inl e \<Rightarrow> Inl (e, s2)
      | Inr certificate \<Rightarrow>
     (let distribution = site_distribution p certificate in
     and_then
       (declare_all fw
          ([acm_Certificate certificate,
            cloudfront_Distribution distribution,
            cloudwatch_Alarm (High5xxErrorRate distribution),
            cloudwatch_Alarm (High4xxErrorRate distribution),
            cloudwatch_Dashboard (SiteDashboard p distribution)]
           @ (case lookup_hosted_zone p of
                Some z \<Rightarrow> alias_records z distribution
              | None \<Rightarrow> [])
           @ [s3deploy_BucketDeployment (DeploySite p distribution)]) s2)
       (\<lambda>self.
     and_then
       (add_suppressions fw (On_resource (bucket_construct_id cloudfront_logs_bucket))
          [''AwsSolutions-S1''] self)
       (\<lambda>self.
     and_then
       (add_suppressions fw (On_resource (distribution_construct_id distribution))
          [''AwsSolutions-CFR3''] self)
       (\<lambda>self.
     and_then
       (add_suppressions fw On_stack
          [''AwsSolutions-IAM4'', ''AwsSolutions-IAM5'', ''AwsSolutions-L1''] self)
       (\<lambda>self.
     declare_all fw (stack_outputs p distribution) self)))))) = Inr g"
    unfolding StaticSiteStack_init_def Let_def and_then_Inr_iff by blast
  have c0: "children s0 = []"
    by (rule Stack_init_Inr[OF s0])
  have c1: "children s1 =
              [s3_Bucket s3_access_logs_bucket, s3_Bucket cloudfront_logs_bucket,
               s3_Bucket site_bucket]"
    using declare_all_Inr[OF s1] c0 by simp
  have c2: "children s2 = children s1
              @ (case lookup_hosted_zone p of Some z \<Rightarrow> [route53_HostedZone z] | None \<Rightarrow> [])"
    using s2 by (auto split: option.splits simp: children_add_child)
  from rest obtain certificate where
    r: "resolve_certificate p (lookup_hosted_zone p) = Inr certificate"
    by (cases "resolve_certificate p (lookup_hosted_zone p)") auto
  from rest obtain s3 s4 s5 s6 where
    s3: "declare_all fw
          ([acm_Certificate certificate,
            cloudfront_Distribution (site_distribution p certificate),
            cloudwatch_Alarm (High5xxErrorRate (site_distribution p certificate)),
            cloudwatch_Alarm (High4xxErrorRate (site_distribution p certificate)),
            cloudwatch_Dashboard (SiteDashboard p (site_distribution p certificate))]
           @ (case lookup_hosted_zone p of
                Some z \<Rightarrow> alias_records z (site_distribution p certificate)
              | None \<Rightarrow> [])
           @ [s3deploy_BucketDeployment (DeploySite p (site_distribution p certificate))]) s2
          = Inr s3" and
    s4: "add_suppressions fw (On_resource (bucket_construct_id cloudfront_logs_bucket))
          [''AwsSolutions-S1''] s3 = Inr s4" and
    s5: "add_suppressions fw
          (On_resource (distribution_construct_id (site_distribution p certificate)))
          [''AwsSolutions-CFR3''] s4 = Inr s5" and
    s6: "add_suppressions fw On_stack
          [''AwsSolutions-IAM4'', ''AwsSolutions-IAM5'', ''AwsSolutions-L1''] s5 = Inr s6" and
    s7: "declare_all fw (stack_outputs p (site_distribution p certificate)) s6 = Inr g"
    unfolding r sum.case Let_def and_then_Inr_iff by blast
  have "children g = children s3 @ stack_outputs p (site_distribution p certificate)"
    using declare_all_Inr[OF s7] add_suppressions_Inr[OF s6] add_suppressions_Inr[OF s5]
      add_suppressions_Inr[OF s4] by simp
  with declare_all_Inr[OF s3] c1 c2 r show ?thesis
    by (intro exI[of _ certificate]) simp
qed

text \<open>
  When the constructor exits with an exception, either a call raised it, and the scope
  holds some of the declarations in their order, or it is the exception of the
  certificate resolution, and the scope holds the three buckets and the zone, if any.
\<close>

lemma init_Inl:
  assumes "StaticSiteStack_init fw p = Inl (e, g)"
  shows "(from_call e \<and>
          (\<exists>n. children g =
             take n ([s3_Bucket s3_access_logs_bucket, s3_Bucket cloudfront_logs_bucket,
                      s3_Bucket site_bucket]
               @ (case lookup_hosted_zone p of
                    Some z \<Rightarrow> [route53_HostedZone z] | None \<Rightarrow> [])))) \<or>
         (from_call e \<and>
          (\<exists>certificate. resolve_certificate p (lookup_hosted_zone p) = Inr certificate)) \<or>
         (resolve_certificate p (lookup_hosted_zone p) = Inl e \<and>
          children g =
            [s3_Bucket s3_access_logs_bucket, s3_Bucket cloudfront_logs_bucket,
             s3_Bucket site_bucket]
            @ (case lookup_hosted_zone p of Some z \<Rightarrow> [route53_HostedZone z] | None \<Rightarrow> []))"
proof -
  let ?A = "Stack_init fw (construct_id p) (''Static site hosting for '' @ domain_name p)
              (kwargs p)"
  let ?bs = "[s3_Bucket s3_access_logs_bucket, s3_Bucket cloudfront_logs_bucket,
              s3_Bucket site_bucket]"
  let ?zs = "case lookup_hosted_zone p of Some z \<Rightarrow> [route53_HostedZone z] | None \<Rightarrow> []"
  show ?thesis
  proof (cases ?A)
    case (Inl x)
    with assms have "x = (e, g)"
      by (simp add: StaticSiteStack_init_def and_then_def)
    with Stack_init_Inl[of fw _ _ _ e g] Inl have "from_call e \<and> children g = take 0 (?bs @ ?zs)"
      by simp
    then show ?thesis by blast
  next
    case s0: (Inr s0)
    have c0: "children s0 = []" by (rule Stack_init_Inr[OF s0])
    show ?thesis
    proof (cases "declare_all fw ?bs s0")
      case (Inl x)
      with assms s0 have x: "x = (e, g)"
        by (simp add: StaticSiteStack_init_def and_then_def)
      from declare_all_Inl[OF Inl[unfolded x]] c0 obtain n where
        fc: "from_call e" and n: "n < length ?bs" and cg: "children g = take n ?bs"
        by auto
      have "take n (?bs @ ?zs) = take n ?bs"
        using n by (intro take_prefix) simp
      then have "children g = take n (?bs @ ?zs)"
        unfolding cg by (rule sym)
      with fc show ?thesis by blast
    next
      case s1: (Inr s1)
      have c1: "children s1 = ?bs" using declare_all_Inr[OF s1] c0 by simp
      let ?Z = "case lookup_hosted_zone p of
                  Some z \<Rightarrow> declare_all fw [route53_HostedZone z] s1 | None \<Rightarrow> Inr s1"
      show ?thesis
      proof (cases ?Z)
        case (Inl x)
        with assms s0 s1 have x: "x = (e, g)"
          by (simp add: StaticSiteStack_init_def and_then_def Let_def)
        from Inl[unfolded x] obtain z where z: "lookup_hosted_zone p = Some z"
          and d: "declare_all fw [route53_HostedZone z] s1 = Inl (e, g)"
          by (auto split: option.splits)
        from declare_all_Inl[OF d] c1 have "from_call e \<and> children g = take 3 (?bs @ ?zs)"
          by (simp add: z)
        then show ?thesis by blast
      next
        case s2: (Inr s2)
        have c2: "children s2 = ?bs @ ?zs"
          using s2 c1 by (auto split: option.splits simp: children_add_child)
        show ?thesis
        proof (cases "resolve_certificate p (lookup_hosted_zone p)")
          case (Inl e')
          with assms s0 s1 s2 have "e' = e \<and> g = s2"
            by (simp add: StaticSiteStack_init_def and_then_def Let_def)
          with Inl c2 show ?thesis by simp
        next
          case (Inr certificate)
          with assms s0 s1 s2 have "from_call e"
            by (auto simp: StaticSiteStack_init_def Let_def and_then_Inl_iff
                simp del: declare_all.simps dest: declare_all_Inl add_suppressions_Inl)
          with Inr show ?thesis by blast
        qed
      qed
    qed
  qed
qed

text \<open>
  Unless a call raises, the constructor returns exactly when the certificate resolution
  returns.
\<close>

lemma init_returns:
  assumes "resolve_certificate p (lookup_hosted_zone p) = Inr certificate"
    and "\<not> raised_in_call (StaticSiteStack_init fw p)"
  shows "StaticSiteStack_init fw p = Inr (scope_at_exit (StaticSiteStack_init fw p))"
proof (cases "StaticSiteStack_init fw p")
  case (Inl x)
  obtain e g where x: "x = (e, g)" by (cases x)
  from init_Inl[OF Inl[unfolded x]] assms(1) have "from_call e" by auto
  with assms(2) Inl x show ?thesis by (simp add: raised_in_call_def raised_def)
next
  case (Inr g)
  then show ?thesis by (simp add: scope_at_exit_def)
qed

lemma init_raises:
  assumes "resolve_certificate p (lookup_hosted_zone p) = Inl e"
  shows "raised (StaticSiteStack_init fw p) \<noteq> None"
    and "\<not> raised_in_call (StaticSiteStack_init fw p) \<Longrightarrow>
           raised (StaticSiteStack_init fw p) = Some e \<and>
           children (scope_at_exit (StaticSiteStack_init fw p)) =
             [s3_Bucket s3_access_logs_bucket, s3_Bucket cloudfront_logs_bucket,
              s3_Bucket site_bucket]
             @ (case lookup_hosted_zone p of Some z \<Rightarrow> [route53_HostedZone z] | None \<Rightarrow> [])"
    and "\<exists>n. children (scope_at_exit (StaticSiteStack_init fw p)) =
           take n ([s3_Bucket s3_access_logs_bucket, s3_Bucket cloudfront_logs_bucket,
                    s3_Bucket site_bucket]
             @ (case lookup_hosted_zone p of Some z \<Rightarrow> [route53_HostedZone z] | None \<Rightarrow> []))"
proof -
  let ?l = "[s3_Bucket s3_access_logs_bucket, s3_Bucket cloudfront_logs_bucket,
             s3_Bucket site_bucket]
            @ (case lookup_hosted_zone p of Some z \<Rightarrow> [route53_HostedZone z] | None \<Rightarrow> [])"
  obtain e' g where r: "StaticSiteStack_init fw p = Inl (e', g)"
  proof (cases "StaticSiteStack_init fw p")
    case (Inl x)
    then show ?thesis using that by (cases x) simp
  next
    case (Inr g)
    from init_Inr[OF this] assms show ?thesis by simp
  qed
  show "raised (StaticSiteStack_init fw p) \<noteq> None"
    by (simp add: r raised_def)
  from init_Inl[OF r] assms
  have d: "(from_call e' \<and> (\<exists>n. children g = take n ?l)) \<or> (e' = e \<and> children g = ?l)"
    by auto
  show "\<exists>n. children (scope_at_exit (StaticSiteStack_init fw p)) = take n ?l"
  proof -
    from d have "\<exists>n. children g = take n ?l"
    proof (elim disjE conjE)
      assume "children g = ?l"
      then have "children g = take (length ?l) ?l" by simp
      then show ?thesis by (rule exI)
    qed
    then show ?thesis by (simp add: r scope_at_exit_def)
  qed
  assume "\<not> raised_in_call (StaticSiteStack_init fw p)"
  then have "\<not> from_call e'"
    by (simp add: r raised_in_call_def raised_def)
  with d show "raised (StaticSiteStack_init fw p) = Some e \<and>
           children (scope_at_exit (StaticSiteStack_init fw p)) = ?l"
    by (simp add: r raised_def scope_at_exit_def)
qed

text \<open>With the framework that refuses nothing, no call raises.\<close>

lemma init_accepting:
  assumes "''description'' \<notin> set (map fst (kwargs p))"
  shows "\<not> raised_in_call (StaticSiteStack_init accepting p)"
proof (cases "resolve_certificate p (lookup_hosted_zone p)")
  case (Inl e)
  note e = resolve_certificate_Inl[OF Inl]
  show ?thesis
  proof (cases "lookup_hosted_zone p")
    case None
    with Inl e show ?thesis
      by (simp add: StaticSiteStack_init_def Let_def and_then_def
          Stack_init_accepting[OF assms] declare_all_accepting raised_in_call_def raised_def
          del: declare_all.simps)
  next
    case (Some z)
    with Inl e show ?thesis
      by (simp add: StaticSiteStack_init_def Let_def and_then_def
          Stack_init_accepting[OF assms] declare_all_accepting raised_in_call_def raised_def
          del: declare_all.simps)
  qed
next
  case (Inr certificate)
  show ?thesis
  proof (cases "lookup_hosted_zone p")
    case None
    with Inr show ?thesis
      by (simp add: StaticSiteStack_init_def Let_def and_then_def
          Stack_init_accepting[OF assms] declare_all_accepting add_suppressions_accepting
          raised_in_call_def raised_def del: declare_all.simps)
  next
    case (Some z)
    with Inr show ?thesis
      by (simp add: StaticSiteStack_init_def Let_def and_then_def
          Stack_init_accepting[OF assms] declare_all_accepting add_suppressions_accepting
          raised_in_call_def raised_def del: declare_all.simps)
  qed
qed

text \<open>The entities of each kind in a scope the constructor returns.\<close>

lemma map_filter_all_None: "(\<And>c. c \<in> set cs \<Longrightarrow> f c = None) \<Longrightarrow> List.map_filter f cs = []"
  by (induction cs) simp_all

lemmas alias_records_unfold = alias_records_def Let_def

lemma success_buckets:
  assumes "StaticSiteStack_init fw p = Inr g"
  shows "buckets g = [s3_access_logs_bucket, cloudfront_logs_bucket, site_bucket]"
proof -
  from init_Inr[OF assms] obtain certificate where c: "children g =
             [s3_Bucket s3_access_logs_bucket, s3_Bucket cloudfront_logs_bucket,
              s3_Bucket site_bucket]
             @ (case lookup_hosted_zone p of Some z \<Rightarrow> [route53_HostedZone z] | None \<Rightarrow> [])
             @ [acm_Certificate certificate,
                cloudfront_Distribution (site_distribution p certificate),
                cloudwatch_Alarm (High5xxErrorRate (site_distribution p certificate)),
                cloudwatch_Alarm (High4xxErrorRate (site_distribution p certificate)),
                cloudwatch_Dashboard (SiteDashboard p (site_distribution p certificate))]
             @ (case lookup_hosted_zone p of
                  Some z \<Rightarrow> alias_records z (site_distribution p certificate)
                | None \<Rightarrow> [])
             @ [s3deploy_BucketDeployment (DeploySite p (site_distribution p certificate))]
             @ stack_outputs p (site_distribution p certificate)"
    by blast
  show ?thesis
    unfolding buckets_def c
    by (simp add: alias_records_unfold stack_outputs_def split: option.splits)
qed

lemma success_certificates:
  assumes "StaticSiteStack_init fw p = Inr g"
  shows "\<exists>certificate. resolve_certificate p (lookup_hosted_zone p) = Inr certificate \<and>
           certificates g = [certificate] \<and>
           distributions g = [site_distribution p certificate] \<and>
           alarms g = [High5xxErrorRate (site_distribution p certificate),
                       High4xxErrorRate (site_distribution p certificate)] \<and>
           dashboards g = [SiteDashboard p (site_distribution p certificate)] \<and>
           deployments g = [DeploySite p (site_distribution p certificate)]"
proof -
  from init_Inr[OF assms] obtain certificate where
    r: "resolve_certificate p (lookup_hosted_zone p) = Inr certificate" and
    c: "children g =
             [s3_Bucket s3_access_logs_bucket, s3_Bucket cloudfront_logs_bucket,
              s3_Bucket site_bucket]
             @ (case lookup_hosted_zone p of Some z \<Rightarrow> [route53_HostedZone z] | None \<Rightarrow> [])
             @ [acm_Certificate certificate,
                cloudfront_Distribution (site_distribution p certificate),
                cloudwatch_Alarm (High5xxErrorRate (site_distribution p certificate)),
                cloudwatch_Alarm (High4xxErrorRate (site_distribution p certificate)),
                cloudwatch_Dashboard (SiteDashboard p (site_distribution p certificate))]
             @ (case lookup_hosted_zone p of
                  Some z \<Rightarrow> alias_records z (site_distribution p certificate)
                | None \<Rightarrow> [])
             @ [s3deploy_BucketDeployment (DeploySite p (site_distribution p certificate))]
             @ stack_outputs p (site_distribution p certificate)"
    by blast
  have "certificates g = [certificate]"
    unfolding certificates_def c
    by (simp add: alias_records_unfold stack_outputs_def split: option.splits)
  moreover have "distributions g = [site_distribution p certificate]"
    unfolding distributions_def c
    by (simp add: alias_records_unfold stack_outputs_def split: option.splits)
  moreover have "alarms g = [High5xxErrorRate (site_distribution p certificate),
                       High4xxErrorRate (site_distribution p certificate)]"
    unfolding alarms_def c
    by (simp add: alias_records_unfold stack_outputs_def split: option.splits)
  moreover have "dashboards g = [SiteDashboard p (site_distribution p certificate)]"
    unfolding dashboards_def c
    by (simp add: alias_records_unfold stack_outputs_def split: option.splits)
  moreover have "deployments g = [DeploySite p (site_distribution p certificate)]"
    unfolding deployments_def c
    by (simp add: alias_records_unfold stack_outputs_def split: option.splits)
  ultimately show ?thesis using r by blast
qed


text \<open>
  The entities in a scope that holds buckets only, as it does when the constructor exits
  before the certificate is resolved and no zone was looked up.
\<close>

lemma only_buckets:
  assumes "children g =
             take n [s3_Bucket s3_access_logs_bucket, s3_Bucket cloudfront_logs_bucket,
                     s3_Bucket site_bucket]"
  shows "hosted_zones g = [] \<and> certificates g = [] \<and> distributions g = [] \<and> alarms g = [] \<and>
         dashboards g = [] \<and> dns_records g = [] \<and> deployments g = []"
proof -
  have "\<And>c. c \<in> set (children g) \<Longrightarrow>
          c \<in> {s3_Bucket s3_access_logs_bucket, s3_Bucket cloudfront_logs_bucket,
               s3_Bucket site_bucket}"
    unfolding assms by (drule in_set_takeD) simp
  then have "\<And>c. c \<in> set (children g) \<Longrightarrow>
               as_hosted_zone c = None \<and> as_certificate c = None \<and> as_distribution c = None \<and>
               as_alarm c = None \<and> as_dashboard c = None \<and> as_dns_record c = None \<and>
               as_deployment c = None"
    by fastforce
  then show ?thesis
    unfolding hosted_zones_def certificates_def distributions_def alarms_def dashboards_def
      dns_records_def deployments_def
    by (intro conjI map_filter_all_None) simp_all
qed

text \<open>
  At the inputs of the tests that expect a stack, with the framework accepting what it
  is handed, the constructor returns.
\<close>

lemma test_with_certificate_arn_returns:
  "StaticSiteStack_init accepting test_with_certificate_arn =
     Inr (scope_at_exit (StaticSiteStack_init accepting test_with_certificate_arn))"
  by (rule init_returns[OF resolve_certificate_arn[of _ test_certificate_arn] init_accepting])
     (simp_all add: test_with_certificate_arn_def test_neither_def test_certificate_arn_def)

lemma test_with_web_acl_returns:
  "StaticSiteStack_init accepting test_with_web_acl =
     Inr (scope_at_exit (StaticSiteStack_init accepting test_with_web_acl))"
  by (rule init_returns[OF resolve_certificate_arn[of _ test_certificate_arn] init_accepting])
     (simp_all add: test_with_web_acl_def test_neither_def test_certificate_arn_def)

lemma test_with_dashboard_name_returns:
  "StaticSiteStack_init accepting test_with_dashboard_name =
     Inr (scope_at_exit (StaticSiteStack_init accepting test_with_dashboard_name))"
  by (rule init_returns[OF resolve_certificate_arn[of _ test_certificate_arn] init_accepting])
     (simp_all add: test_with_dashboard_name_def test_neither_def test_certificate_arn_def)

section \<open>Failure without a certificate source\<close>

text \<open>
  Claim C1, as the code has it. When neither \<^verbatim>\<open>certificate_arn\<close> nor
  \<^verbatim>\<open>hosted_zone_id\<close> is given, the constructor never returns. The check sits where the
  certificate is resolved (line 120), after the three buckets of lines 46-95: unless a
  call raises before (the framework refusing the scope or a bucket), the exception is
  the \<^verbatim>\<open>ValueError\<close> of line 121, and the scope then holds exactly these three
  buckets. In every case the scope holds, when the constructor exits, no zone,
  certificate, distribution, alarm, dashboard, DNS record or deployment. In particular,
  with a framework that refuses nothing (and no second \<^verbatim>\<open>description\<close>), the
  constructor raises the \<^verbatim>\<open>ValueError\<close> with the three buckets declared.
\<close>

theorem raises_without_certificate_source:
  assumes "certificate_arn p = None" and "hosted_zone_id p = None"
  shows "raised (StaticSiteStack_init fw p) \<noteq> None \<and>
         (\<not> raised_in_call (StaticSiteStack_init fw p) \<longrightarrow>
            raised (StaticSiteStack_init fw p) =
              Some (ValueError
                ''You must provide either certificate_arn or hosted_zone_id so a certificate can be created.'') \<and>
            children (scope_at_exit (StaticSiteStack_init fw p)) =
              [s3_Bucket s3_access_logs_bucket, s3_Bucket cloudfront_logs_bucket,
               s3_Bucket site_bucket]) \<and>
         hosted_zones (scope_at_exit (StaticSiteStack_init fw p)) = [] \<and>
         certificates (scope_at_exit (StaticSiteStack_init fw p)) = [] \<and>
         distributions (scope_at_exit (StaticSiteStack_init fw p)) = [] \<and>
         alarms (scope_at_exit (StaticSiteStack_init fw p)) = [] \<and>
         dashboards (scope_at_exit (StaticSiteStack_init fw p)) = [] \<and>
         dns_records (scope_at_exit (StaticSiteStack_init fw p)) = [] \<and>
         deployments (scope_at_exit (StaticSiteStack_init fw p)) = [] \<and>
         (''description'' \<notin> set (map fst (kwargs p)) \<longrightarrow>
            raised (StaticSiteStack_init accepting p) =
              Some (ValueError
                ''You must provide either certificate_arn or hosted_zone_id so a certificate can be created.'') \<and>
            children (scope_at_exit (StaticSiteStack_init accepting p)) =
              [s3_Bucket s3_access_logs_bucket, s3_Bucket cloudfront_logs_bucket,
               s3_Bucket site_bucket])"
proof -
  let ?e = "ValueError
    ''You must provide either certificate_arn or hosted_zone_id so a certificate can be created.''"
  have z: "lookup_hosted_zone p = None"
    using assms(2) by (simp add: lookup_hosted_zone_def truthy_def)
  have r: "resolve_certificate p (lookup_hosted_zone p) = Inl ?e"
    using assms(1) unfolding z by (simp add: resolve_certificate_neither truthy_None)
  have own: "\<not> raised_in_call (StaticSiteStack_init fw' p) \<Longrightarrow>
             raised (StaticSiteStack_init fw' p) = Some ?e \<and>
             children (scope_at_exit (StaticSiteStack_init fw' p)) =
               [s3_Bucket s3_access_logs_bucket, s3_Bucket cloudfront_logs_bucket,
                s3_Bucket site_bucket]" for fw'
    using init_raises(2)[OF r, of fw'] by (simp add: z)
  from init_raises(3)[OF r, of fw] obtain n where
    "children (scope_at_exit (StaticSiteStack_init fw p)) =
       take n [s3_Bucket s3_access_logs_bucket, s3_Bucket cloudfront_logs_bucket,
               s3_Bucket site_bucket]"
    by (auto simp: z)
  note none = only_buckets[OF this]
  have acc: "''description'' \<notin> set (map fst (kwargs p)) \<Longrightarrow>
             raised (StaticSiteStack_init accepting p) = Some ?e \<and>
             children (scope_at_exit (StaticSiteStack_init accepting p)) =
               [s3_Bucket s3_access_logs_bucket, s3_Bucket cloudfront_logs_bucket,
                s3_Bucket site_bucket]"
    by (rule own[OF init_accepting])
  from init_raises(1)[OF r, of fw] own[of fw] none acc show ?thesis
    by blast
qed

text \<open>The theorem at the input of \<^verbatim>\<open>test_raises_without_cert_or_zone\<close>.\<close>

theorem raises_without_certificate_source_witness:
  "certificate_arn test_neither = None \<and> hosted_zone_id test_neither = None \<and>
   raised (StaticSiteStack_init accepting test_neither) =
     Some (ValueError
       ''You must provide either certificate_arn or hosted_zone_id so a certificate can be created.'') \<and>
   children (scope_at_exit (StaticSiteStack_init accepting test_neither)) =
     [s3_Bucket s3_access_logs_bucket, s3_Bucket cloudfront_logs_bucket, s3_Bucket site_bucket]"
proof -
  have a: "certificate_arn test_neither = None" and b: "hosted_zone_id test_neither = None"
    and k: "''description'' \<notin> set (map fst (kwargs test_neither))"
    by (simp_all add: test_neither_def)
  from raises_without_certificate_source[OF a b, of accepting] k
  have "raised (StaticSiteStack_init accepting test_neither) =
     Some (ValueError
       ''You must provide either certificate_arn or hosted_zone_id so a certificate can be created.'') \<and>
   children (scope_at_exit (StaticSiteStack_init accepting test_neither)) =
     [s3_Bucket s3_access_logs_bucket, s3_Bucket cloudfront_logs_bucket, s3_Bucket site_bucket]"
    by blast
  with a b show ?thesis by (intro conjI) (elim conjE, assumption)+
qed

text \<open>
  Claim C1 as stated says that nothing, and no bucket in particular, is in the scope
  when the error is raised. At the test's input, where the framework accepts the scope
  and the buckets (the test sees the \<^verbatim>\<open>ValueError\<close>), the error is raised with
  three buckets declared.
\<close>

theorem buckets_declared_before_raise:
  "raised (StaticSiteStack_init accepting
     \<lparr>construct_id = ''TestStack'', domain_name = ''example.com'', dist_path = ''/tmp/dist'',
      hosted_zone_id = None, certificate_arn = None, web_acl_id = None,
      dashboard_name = None, kwargs = []\<rparr>) =
     Some (ValueError
       ''You must provide either certificate_arn or hosted_zone_id so a certificate can be created.'') \<and>
   map bucket_construct_id (buckets (scope_at_exit (StaticSiteStack_init accepting
     \<lparr>construct_id = ''TestStack'', domain_name = ''example.com'', dist_path = ''/tmp/dist'',
      hosted_zone_id = None, certificate_arn = None, web_acl_id = None,
      dashboard_name = None, kwargs = []\<rparr>))) =
     [''S3AccessLogsBucket'', ''CloudFrontLogsBucket'', ''SiteBucket'']"
proof -
  let ?p = "\<lparr>construct_id = ''TestStack'', domain_name = ''example.com'',
      dist_path = ''/tmp/dist'', hosted_zone_id = None, certificate_arn = None,
      web_acl_id = None, dashboard_name = None, kwargs = []\<rparr>"
  have z: "lookup_hosted_zone ?p = None"
    by (simp add: lookup_hosted_zone_def truthy_def)
  have r: "resolve_certificate ?p (lookup_hosted_zone ?p) =
             Inl (ValueError
               ''You must provide either certificate_arn or hosted_zone_id so a certificate can be created.'')"
    unfolding z by (simp add: resolve_certificate_neither truthy_None)
  have k: "\<not> raised_in_call (StaticSiteStack_init accepting ?p)"
    by (rule init_accepting) simp
  show ?thesis
    using init_raises(2)[OF r k]
    by (simp add: z buckets_def s3_access_logs_bucket_def cloudfront_logs_bucket_def
        site_bucket_def)
qed

section \<open>Certificate and DNS records from a hosted zone\<close>



section \<open>The dashboard name\<close>

text \<open>
  Claim C3, as the code has it. Line 43 replaces the dots of whichever name it selects,
  the supplied one included. The resolved dashboard name is \<^verbatim>\<open>domain_name\<close> with every
  dot replaced by a dash when \<^verbatim>\<open>dashboard_name\<close> is not supplied (or is empty), and
  the supplied \<^verbatim>\<open>dashboard_name\<close> with every dot replaced by a dash when a non-empty
  one is supplied: the supplied name verbatim when it has no dot. It never contains a dot,
  and it is the name of the one dashboard of every stack that is built.
\<close>

theorem dashboard_name_dots_replaced:
  "(dashboard_name p = None \<or> dashboard_name p = Some [] \<longrightarrow>
      resolved_dashboard_name p = str_replace (CHR ''.'') (CHR ''-'') (domain_name p)) \<and>
   (\<forall>d. dashboard_name p = Some d \<and> d \<noteq> [] \<longrightarrow>
      resolved_dashboard_name p = str_replace (CHR ''.'') (CHR ''-'') d \<and>
      (CHR ''.'' \<notin> set d \<longrightarrow> resolved_dashboard_name p = d)) \<and>
   CHR ''.'' \<notin> set (resolved_dashboard_name p) \<and>
   (\<forall>fw g. StaticSiteStack_init fw p = Inr g \<longrightarrow>
      map dashboard_dashboard_name (dashboards g) = [resolved_dashboard_name p])"
proof (intro conjI allI impI)
  assume "dashboard_name p = None \<or> dashboard_name p = Some []"
  then show "resolved_dashboard_name p = str_replace (CHR ''.'') (CHR ''-'') (domain_name p)"
    by (auto simp: resolved_dashboard_name_def py_or_def truthy_def)
next
  fix d assume d: "dashboard_name p = Some d \<and> d \<noteq> []"
  then show r: "resolved_dashboard_name p = str_replace (CHR ''.'') (CHR ''-'') d"
    by (simp add: resolved_dashboard_name_def py_or_def truthy_def)
  assume "CHR ''.'' \<notin> set d"
  then show "resolved_dashboard_name p = d"
    unfolding r by (rule str_replace_absent)
next
  show "CHR ''.'' \<notin> set (resolved_dashboard_name p)"
    by (auto simp: resolved_dashboard_name_def str_replace_def)
next
  fix fw g assume "StaticSiteStack_init fw p = Inr g"
  from success_certificates[OF this]
  show "map dashboard_dashboard_name (dashboards g) = [resolved_dashboard_name p]"
    by (auto simp: SiteDashboard_def)
qed

text \<open>
  The theorem at the inputs of \<^verbatim>\<open>test_synth_with_dashboard_name\<close> (a name without
  dots, kept as it is) and of \<^verbatim>\<open>test_synth_with_certificate_arn\<close> (no name: the
  domain name with dashes).
\<close>

theorem dashboard_name_dots_replaced_witness:
  "dashboard_name test_with_dashboard_name = Some ''MyCustomDashboard'' \<and>
   resolved_dashboard_name test_with_dashboard_name = ''MyCustomDashboard'' \<and>
   map dashboard_dashboard_name
     (dashboards (scope_at_exit (StaticSiteStack_init accepting test_with_dashboard_name))) =
     [''MyCustomDashboard''] \<and>
   dashboard_name test_with_certificate_arn = None \<and>
   resolved_dashboard_name test_with_certificate_arn = ''example-com''"
proof -
  have a: "dashboard_name test_with_dashboard_name = Some ''MyCustomDashboard''"
    by (simp add: test_with_dashboard_name_def test_neither_def)
  have b: "dashboard_name test_with_certificate_arn = None"
    by (simp add: test_with_certificate_arn_def test_neither_def)
  have c: "domain_name test_with_certificate_arn = ''example.com''"
    by (simp add: test_with_certificate_arn_def test_neither_def)
  note t1 = dashboard_name_dots_replaced[of test_with_dashboard_name]
  note t2 = dashboard_name_dots_replaced[of test_with_certificate_arn]
  have r1: "resolved_dashboard_name test_with_dashboard_name = ''MyCustomDashboard''"
    using t1 a by (simp add: str_replace_def)
  from t1 have "StaticSiteStack_init accepting test_with_dashboard_name =
          Inr (scope_at_exit (StaticSiteStack_init accepting test_with_dashboard_name)) \<longrightarrow>
        map dashboard_dashboard_name
          (dashboards (scope_at_exit (StaticSiteStack_init accepting test_with_dashboard_name))) =
          [resolved_dashboard_name test_with_dashboard_name]"
    by blast
  with test_with_dashboard_name_returns r1
  have g1: "map dashboard_dashboard_name
     (dashboards (scope_at_exit (StaticSiteStack_init accepting test_with_dashboard_name))) =
     [''MyCustomDashboard'']"
    by simp
  have r2: "resolved_dashboard_name test_with_certificate_arn = ''example-com''"
    using t2 b c by (simp add: str_replace_def)
  from a r1 g1 b r2 show ?thesis by (intro conjI)
qed

text \<open>
  Claim C3 as stated keeps a supplied name unchanged, dots included. A supplied name
  with a dot is changed, in the resolved name and in the dashboard declared.
\<close>

theorem supplied_dashboard_name_loses_dots:
  "resolved_dashboard_name
     \<lparr>construct_id = ''TestStack'', domain_name = ''example.com'', dist_path = ''/tmp/dist'',
      hosted_zone_id = None, certificate_arn = Some ''arn:aws:acm:us-east-1:123456789012:certificate/test-cert'',
      web_acl_id = None, dashboard_name = Some ''my.dash'', kwargs = []\<rparr> = ''my-dash'' \<and>
   resolved_dashboard_name
     \<lparr>construct_id = ''TestStack'', domain_name = ''example.com'', dist_path = ''/tmp/dist'',
      hosted_zone_id = None, certificate_arn = Some ''arn:aws:acm:us-east-1:123456789012:certificate/test-cert'',
      web_acl_id = None, dashboard_name = Some ''my.dash'', kwargs = []\<rparr> \<noteq> ''my.dash'' \<and>
   map dashboard_dashboard_name (dashboards (scope_at_exit (StaticSiteStack_init accepting
     \<lparr>construct_id = ''TestStack'', domain_name = ''example.com'', dist_path = ''/tmp/dist'',
      hosted_zone_id = None, certificate_arn = Some ''arn:aws:acm:us-east-1:123456789012:certificate/test-cert'',
      web_acl_id = None, dashboard_name = Some ''my.dash'', kwargs = []\<rparr>))) = [''my-dash'']"
proof -
  let ?p = "\<lparr>construct_id = ''TestStack'', domain_name = ''example.com'',
      dist_path = ''/tmp/dist'', hosted_zone_id = None,
      certificate_arn = Some ''arn:aws:acm:us-east-1:123456789012:certificate/test-cert'',
      web_acl_id = None, dashboard_name = Some ''my.dash'', kwargs = []\<rparr>"
  have n: "resolved_dashboard_name ?p = ''my-dash''"
    by (simp add: resolved_dashboard_name_def py_or_def truthy_def str_replace_def)
  have r: "resolve_certificate ?p (lookup_hosted_zone ?p) =
             Inr (Certificate_from_certificate_arn ''Cert''
                    ''arn:aws:acm:us-east-1:123456789012:certificate/test-cert'')"
    by (simp add: resolve_certificate_def truthy_def)
  have k: "\<not> raised_in_call (StaticSiteStack_init accepting ?p)"
    by (rule init_accepting) simp
  have ok: "StaticSiteStack_init accepting ?p =
              Inr (scope_at_exit (StaticSiteStack_init accepting ?p))"
    by (rule init_returns[OF r k])
  from success_certificates[OF ok]
  have "map dashboard_dashboard_name
          (dashboards (scope_at_exit (StaticSiteStack_init accepting ?p))) =
          [resolved_dashboard_name ?p]"
    by (auto simp: SiteDashboard_def)
  with n show ?thesis by simp
qed

section \<open>The security posture of the buckets\<close>

text \<open>
  Claim C4. Whatever the arguments, in every stack that is built the content bucket (the
  bucket \<^verbatim>\<open>SiteBucket\<close>, the origin of the distribution and the destination of the
  deployment) blocks all public access, is encrypted at rest and enforces TLS; so do the
  two log buckets.
\<close>

theorem content_bucket_private_encrypted_tls:
  assumes "StaticSiteStack_init fw p = Inr g"
  shows "map deployment_destination_bucket (deployments g) = [''SiteBucket''] \<and>
         map (\<lambda>d. behavior_origin (distribution_default_behavior d)) (distributions g) =
           [S3BucketOrigin_with_origin_access_control ''SiteBucket''] \<and>
         map_option bucket_block_public_access (find_bucket ''SiteBucket'' g) = Some BLOCK_ALL \<and>
         map_option bucket_encryption (find_bucket ''SiteBucket'' g) = Some S3_MANAGED \<and>
         map_option bucket_enforce_ssl (find_bucket ''SiteBucket'' g) = Some True \<and>
         map (\<lambda>b. (bucket_construct_id b, bucket_block_public_access b, bucket_encryption b,
                    bucket_enforce_ssl b)) (buckets g) =
           [(''S3AccessLogsBucket'', BLOCK_ALL, S3_MANAGED, True),
            (''CloudFrontLogsBucket'', BLOCK_ALL, KMS_MANAGED, True),
            (''SiteBucket'', BLOCK_ALL, S3_MANAGED, True)]"
proof -
  from success_certificates[OF assms]
  have "map deployment_destination_bucket (deployments g) = [''SiteBucket'']"
    and "map (\<lambda>d. behavior_origin (distribution_default_behavior d)) (distributions g) =
           [S3BucketOrigin_with_origin_access_control ''SiteBucket'']"
    by (auto simp: DeploySite_def site_distribution_def site_bucket_def)
  then show ?thesis
    using success_buckets[OF assms]
    by (simp add: find_bucket_def s3_access_logs_bucket_def cloudfront_logs_bucket_def
        site_bucket_def)
qed

text \<open>The theorem at the input of \<^verbatim>\<open>test_synth_with_web_acl\<close>.\<close>

theorem content_bucket_private_encrypted_tls_witness:
  "StaticSiteStack_init accepting test_with_web_acl =
     Inr (scope_at_exit (StaticSiteStack_init accepting test_with_web_acl)) \<and>
   map_option bucket_block_public_access
     (find_bucket ''SiteBucket''
        (scope_at_exit (StaticSiteStack_init accepting test_with_web_acl))) =
     Some BLOCK_ALL \<and>
   map_option bucket_encryption
     (find_bucket ''SiteBucket''
        (scope_at_exit (StaticSiteStack_init accepting test_with_web_acl))) =
     Some S3_MANAGED \<and>
   map_option bucket_enforce_ssl
     (find_bucket ''SiteBucket''
        (scope_at_exit (StaticSiteStack_init accepting test_with_web_acl))) =
     Some True"
  using test_with_web_acl_returns
    content_bucket_private_encrypted_tls[OF test_with_web_acl_returns]
  by (intro conjI) (elim conjE, assumption)+

section \<open>No DNS records without a zone\<close>



section \<open>The distribution\<close>

text \<open>
  Claim C6, as the code has it. In every stack that is built there is one distribution.
  Its viewer protocol policy is \<^verbatim>\<open>REDIRECT_TO_HTTPS\<close> (line 132): a request over
  plain HTTP is answered with a redirect to HTTPS. It is not the framework's
  \<^verbatim>\<open>HTTPS_ONLY\<close>, under which such a request is refused, nor the permissive
  \<^verbatim>\<open>ALLOW_ALL\<close>. Its response headers policy is the managed security-headers policy,
  and its alternate domain names are \<^verbatim>\<open>domain_name\<close> and \<^verbatim>\<open>www.{domain_name}\<close>.
  Its certificate is the one certificate in the scope: the certificate imported under the
  id \<^verbatim>\<open>Cert\<close> from \<^verbatim>\<open>certificate_arn\<close> when that is given and not empty, and
  otherwise the new certificate \<^verbatim>\<open>SiteCertificate\<close> for \<^verbatim>\<open>domain_name\<close> and
  \<^verbatim>\<open>www.{domain_name}\<close>, validated against the zone.
\<close>

theorem distribution_redirects_headers_names_certificate:
  assumes "StaticSiteStack_init fw p = Inr g"
  shows "\<exists>certificate.
           certificates g = [certificate] \<and>
           map distribution_certificate (distributions g) = [certificate] \<and>
           resolve_certificate p (lookup_hosted_zone p) = Inr certificate \<and>
           certificate =
             (case truthy (certificate_arn p) of
                Some arn \<Rightarrow> Certificate_from_certificate_arn ''Cert'' arn
              | None \<Rightarrow>
                  Certificate ''SiteCertificate'' (domain_name p) [''www.'' @ domain_name p]
                    (CertificateValidation_from_dns ''Zone'')) \<and>
           map (\<lambda>d. behavior_viewer_protocol_policy (distribution_default_behavior d))
             (distributions g) = [REDIRECT_TO_HTTPS] \<and>
           map (\<lambda>d. behavior_response_headers_policy (distribution_default_behavior d))
             (distributions g) = [SECURITY_HEADERS] \<and>
           map distribution_domain_names (distributions g) =
             [[domain_name p, ''www.'' @ domain_name p]]"
proof -
  from success_certificates[OF assms] obtain certificate where
    r: "resolve_certificate p (lookup_hosted_zone p) = Inr certificate" and
    c: "certificates g = [certificate]" and
    d: "distributions g = [site_distribution p certificate]"
    by blast
  from r have v: "certificate =
             (case truthy (certificate_arn p) of
                Some arn \<Rightarrow> Certificate_from_certificate_arn ''Cert'' arn
              | None \<Rightarrow>
                  Certificate ''SiteCertificate'' (domain_name p) [''www.'' @ domain_name p]
                    (CertificateValidation_from_dns ''Zone''))"
    by (auto simp: resolve_certificate_def lookup_hosted_zone_def split: option.splits)
  show ?thesis
    using r c v by (intro exI[of _ certificate]) (simp add: d site_distribution_def)
qed

text \<open>
  The theorem at the inputs of \<^verbatim>\<open>test_synth_with_certificate_arn\<close> (an imported
  certificate) and of \<^verbatim>\<open>test_synth_with_hosted_zone\<close> (a new one).
\<close>

theorem distribution_redirects_headers_names_certificate_witness:
  "StaticSiteStack_init accepting test_with_certificate_arn =
     Inr (scope_at_exit (StaticSiteStack_init accepting test_with_certificate_arn)) \<and>
   map distribution_certificate
     (distributions (scope_at_exit (StaticSiteStack_init accepting test_with_certificate_arn))) =
     [Certificate_from_certificate_arn ''Cert'' test_certificate_arn] \<and>
   certificates (scope_at_exit (StaticSiteStack_init accepting test_with_certificate_arn)) =
     [Certificate_from_certificate_arn ''Cert'' test_certificate_arn] \<and>
   map (\<lambda>d. behavior_viewer_protocol_policy (distribution_default_behavior d))
     (distributions (scope_at_exit (StaticSiteStack_init accepting test_with_certificate_arn))) =
     [REDIRECT_TO_HTTPS] \<and>
   map distribution_domain_names
     (distributions (scope_at_exit (StaticSiteStack_init accepting test_with_certificate_arn))) =
     [[''example.com'', ''www.example.com'']] \<and>
   StaticSiteStack_init accepting test_with_hosted_zone =
     Inr (scope_at_exit (StaticSiteStack_init accepting test_with_hosted_zone)) \<and>
   map distribution_certificate
     (distributions (scope_at_exit (StaticSiteStack_init accepting test_with_hosted_zone))) =
     [Certificate ''SiteCertificate'' ''example.com'' [''www.example.com'']
        (CertificateValidation_from_dns ''Zone'')] \<and>
   certificates (scope_at_exit (StaticSiteStack_init accepting test_with_hosted_zone)) =
     [Certificate ''SiteCertificate'' ''example.com'' [''www.example.com'']
        (CertificateValidation_from_dns ''Zone'')]"
proof -
  have a: "truthy (certificate_arn test_with_certificate_arn) = Some test_certificate_arn"
    and d: "domain_name test_with_certificate_arn = ''example.com''"
    by (simp_all add: test_with_certificate_arn_def test_neither_def test_certificate_arn_def
        truthy_def)
  have a': "truthy (certificate_arn test_with_hosted_zone) = None"
    and d': "domain_name test_with_hosted_zone = ''example.com''"
    by (simp_all add: test_with_hosted_zone_def test_neither_def truthy_def)
  have r': "resolve_certificate test_with_hosted_zone (lookup_hosted_zone test_with_hosted_zone) =
              Inr (Certificate ''SiteCertificate'' ''example.com'' [''www.example.com'']
                     (CertificateValidation_from_dns ''Zone''))"
    by (simp add: resolve_certificate_def lookup_hosted_zone_def truthy_def
        test_with_hosted_zone_def test_neither_def)
  have k': "\<not> raised_in_call (StaticSiteStack_init accepting test_with_hosted_zone)"
    by (rule init_accepting) (simp add: test_with_hosted_zone_def test_neither_def)
  note ok' = init_returns[OF r' k']
  from distribution_redirects_headers_names_certificate[OF test_with_certificate_arn_returns]
  have 1: "map distribution_certificate
     (distributions (scope_at_exit (StaticSiteStack_init accepting test_with_certificate_arn))) =
     [Certificate_from_certificate_arn ''Cert'' test_certificate_arn] \<and>
   certificates (scope_at_exit (StaticSiteStack_init accepting test_with_certificate_arn)) =
     [Certificate_from_certificate_arn ''Cert'' test_certificate_arn] \<and>
   map (\<lambda>d. behavior_viewer_protocol_policy (distribution_default_behavior d))
     (distributions (scope_at_exit (StaticSiteStack_init accepting test_with_certificate_arn))) =
     [REDIRECT_TO_HTTPS] \<and>
   map distribution_domain_names
     (distributions (scope_at_exit (StaticSiteStack_init accepting test_with_certificate_arn))) =
     [[''example.com'', ''www.example.com'']]"
    by (auto simp: a d)
  from distribution_redirects_headers_names_certificate[OF ok']
  have 2: "map distribution_certificate
     (distributions (scope_at_exit (StaticSiteStack_init accepting test_with_hosted_zone))) =
     [Certificate ''SiteCertificate'' ''example.com'' [''www.example.com'']
        (CertificateValidation_from_dns ''Zone'')] \<and>
   certificates (scope_at_exit (StaticSiteStack_init accepting test_with_hosted_zone)) =
     [Certificate ''SiteCertificate'' ''example.com'' [''www.example.com'']
        (CertificateValidation_from_dns ''Zone'')]"
    by (auto simp: a' d')
  from test_with_certificate_arn_returns 1 ok' 2 show ?thesis
    by (intro conjI) (elim conjE, assumption)+
qed

text \<open>
  Claim C6 as stated gives the distribution an HTTPS-only viewer policy. At the input
  of \<^verbatim>\<open>test_synth_with_certificate_arn\<close> the policy of the distribution is
  \<^verbatim>\<open>REDIRECT_TO_HTTPS\<close>, which is another member of the framework's enumeration than
  \<^verbatim>\<open>HTTPS_ONLY\<close>.
\<close>

theorem viewer_policy_is_redirect_not_https_only:
  "map (\<lambda>d. behavior_viewer_protocol_policy (distribution_default_behavior d))
     (distributions (scope_at_exit (StaticSiteStack_init accepting
       \<lparr>construct_id = ''TestStack'', domain_name = ''example.com'', dist_path = ''/tmp/dist'',
        hosted_zone_id = None,
        certificate_arn = Some ''arn:aws:acm:us-east-1:123456789012:certificate/test-cert'',
        web_acl_id = None, dashboard_name = None, kwargs = []\<rparr>))) = [REDIRECT_TO_HTTPS] \<and>
   map (\<lambda>d. behavior_viewer_protocol_policy (distribution_default_behavior d))
     (distributions (scope_at_exit (StaticSiteStack_init accepting
       \<lparr>construct_id = ''TestStack'', domain_name = ''example.com'', dist_path = ''/tmp/dist'',
        hosted_zone_id = None,
        certificate_arn = Some ''arn:aws:acm:us-east-1:123456789012:certificate/test-cert'',
        web_acl_id = None, dashboard_name = None, kwargs = []\<rparr>))) \<noteq> [HTTPS_ONLY]"
proof -
  let ?p = "\<lparr>construct_id = ''TestStack'', domain_name = ''example.com'',
      dist_path = ''/tmp/dist'', hosted_zone_id = None,
      certificate_arn = Some ''arn:aws:acm:us-east-1:123456789012:certificate/test-cert'',
      web_acl_id = None, dashboard_name = None, kwargs = []\<rparr>"
  have r: "resolve_certificate ?p (lookup_hosted_zone ?p) =
             Inr (Certificate_from_certificate_arn ''Cert''
                    ''arn:aws:acm:us-east-1:123456789012:certificate/test-cert'')"
    by (simp add: resolve_certificate_def truthy_def)
  have k: "\<not> raised_in_call (StaticSiteStack_init accepting ?p)"
    by (rule init_accepting) simp
  have ok: "StaticSiteStack_init accepting ?p =
              Inr (scope_at_exit (StaticSiteStack_init accepting ?p))"
    by (rule init_returns[OF r k])
  from success_certificates[OF ok]
  have "map (\<lambda>d. behavior_viewer_protocol_policy (distribution_default_behavior d))
          (distributions (scope_at_exit (StaticSiteStack_init accepting ?p))) =
          [REDIRECT_TO_HTTPS]"
    by (auto simp: site_distribution_def)
  then show ?thesis by simp
qed

text \<open>
  Claim C7. In every stack that is built the distribution carries \<^verbatim>\<open>web_acl_id\<close> as it
  was passed: the supplied firewall reference, or none when none was supplied.
\<close>

theorem distribution_carries_web_acl_id:
  assumes "StaticSiteStack_init fw p = Inr g"
  shows "map distribution_web_acl_id (distributions g) = [web_acl_id p]"
proof -
  from success_certificates[OF assms] obtain certificate where
    "distributions g = [site_distribution p certificate]"
    by blast
  then show ?thesis
    by (simp add: site_distribution_def)
qed

text \<open>
  The theorem at the inputs of \<^verbatim>\<open>test_synth_with_web_acl\<close> (a firewall reference) and
  of \<^verbatim>\<open>test_synth_with_certificate_arn\<close> (none).
\<close>

theorem distribution_carries_web_acl_id_witness:
  "StaticSiteStack_init accepting test_with_web_acl =
     Inr (scope_at_exit (StaticSiteStack_init accepting test_with_web_acl)) \<and>
   map distribution_web_acl_id
     (distributions (scope_at_exit (StaticSiteStack_init accepting test_with_web_acl))) =
     [Some test_web_acl_id] \<and>
   StaticSiteStack_init accepting test_with_certificate_arn =
     Inr (scope_at_exit (StaticSiteStack_init accepting test_with_certificate_arn)) \<and>
   map distribution_web_acl_id
     (distributions (scope_at_exit (StaticSiteStack_init accepting test_with_certificate_arn))) =
     [None]"
proof -
  have a: "web_acl_id test_with_web_acl = Some test_web_acl_id"
    by (simp add: test_with_web_acl_def test_neither_def)
  have b: "web_acl_id test_with_certificate_arn = None"
    by (simp add: test_with_certificate_arn_def test_neither_def)
  from distribution_carries_web_acl_id[OF test_with_web_acl_returns]
    distribution_carries_web_acl_id[OF test_with_certificate_arn_returns]
    test_with_web_acl_returns test_with_certificate_arn_returns
  show ?thesis
    unfolding a b by (intro conjI)
qed

section \<open>Alarms and dashboard\<close>



section \<open>Retention of the buckets\<close>

text \<open>
  Claim C9. In every stack that is built the buckets are the two log buckets and the
  content bucket. Each log bucket has one lifecycle rule, which expires objects after 180
  days, the removal policy \<^verbatim>\<open>RETAIN\<close> and no automatic deletion of objects; the content
  bucket has the removal policy \<^verbatim>\<open>DESTROY\<close> and automatic deletion of objects. The
  origin-access log bucket is the one the content bucket logs to.
\<close>

theorem log_buckets_retained_content_bucket_destroyed:
  assumes "StaticSiteStack_init fw p = Inr g"
  shows "map (\<lambda>b. (bucket_construct_id b, bucket_removal_policy b, bucket_auto_delete_objects b,
                    map rule_expiration (bucket_lifecycle_rules b))) (buckets g) =
           [(''S3AccessLogsBucket'', RETAIN, False, [Some (Duration_days 180)]),
            (''CloudFrontLogsBucket'', RETAIN, False, [Some (Duration_days 180)]),
            (''SiteBucket'', DESTROY, True, [None])] \<and>
         map_option bucket_server_access_logs_bucket (find_bucket ''SiteBucket'' g) =
           Some (Some ''S3AccessLogsBucket'')"
  using success_buckets[OF assms]
  by (simp add: find_bucket_def s3_access_logs_bucket_def cloudfront_logs_bucket_def
      site_bucket_def)

text \<open>The theorem at the input of \<^verbatim>\<open>test_synth_with_certificate_arn\<close>.\<close>

theorem log_buckets_retained_content_bucket_destroyed_witness:
  "StaticSiteStack_init accepting test_with_certificate_arn =
     Inr (scope_at_exit (StaticSiteStack_init accepting test_with_certificate_arn)) \<and>
   map (\<lambda>b. (bucket_construct_id b, bucket_removal_policy b, bucket_auto_delete_objects b,
              map rule_expiration (bucket_lifecycle_rules b)))
     (buckets (scope_at_exit (StaticSiteStack_init accepting test_with_certificate_arn))) =
     [(''S3AccessLogsBucket'', RETAIN, False, [Some (Duration_days 180)]),
      (''CloudFrontLogsBucket'', RETAIN, False, [Some (Duration_days 180)]),
      (''SiteBucket'', DESTROY, True, [None])]"
  using test_with_certificate_arn_returns
    log_buckets_retained_content_bucket_destroyed[OF test_with_certificate_arn_returns]
  by (intro conjI) (elim conjE, assumption)+

section \<open>The fallback to the root document\<close>

text \<open>
  Claim C10. In every stack that is built the distribution has exactly two error
  responses, for the statuses 403 and 404; each answers with status 200, the page
  \<^verbatim>\<open>/index.html\<close> and a time to live of five minutes. Its default root object is
  \<^verbatim>\<open>index.html\<close>.
\<close>

theorem error_responses_rewrite_to_200:
  assumes "StaticSiteStack_init fw p = Inr g"
  shows "map distribution_error_responses (distributions g) =
           [[\<lparr>error_http_status = 403, error_response_http_status = 200,
              error_response_page_path = ''/index.html'', error_ttl = Duration_minutes 5\<rparr>,
             \<lparr>error_http_status = 404, error_response_http_status = 200,
              error_response_page_path = ''/index.html'', error_ttl = Duration_minutes 5\<rparr>]] \<and>
         map distribution_default_root_object (distributions g) = [''index.html'']"
proof -
  from success_certificates[OF assms] obtain certificate where
    "distributions g = [site_distribution p certificate]"
    by blast
  then show ?thesis
    by (simp add: site_distribution_def)
qed

text \<open>The theorem at the input of \<^verbatim>\<open>test_synth_with_web_acl\<close>.\<close>

theorem error_responses_rewrite_to_200_witness:
  "StaticSiteStack_init accepting test_with_web_acl =
     Inr (scope_at_exit (StaticSiteStack_init accepting test_with_web_acl)) \<and>
   map distribution_error_responses
     (distributions (scope_at_exit (StaticSiteStack_init accepting test_with_web_acl))) =
     [[\<lparr>error_http_status = 403, error_response_http_status = 200,
        error_response_page_path = ''/index.html'', error_ttl = Duration_minutes 5\<rparr>,
       \<lparr>error_http_status = 404, error_response_http_status = 200,
        error_response_page_path = ''/index.html'', error_ttl = Duration_minutes 5\<rparr>]] \<and>
   map distribution_default_root_object
     (distributions (scope_at_exit (StaticSiteStack_init accepting test_with_web_acl))) =
     [''index.html'']"
  using test_with_web_acl_returns
    error_responses_rewrite_to_200[OF test_with_web_acl_returns]
  by (intro conjI) (elim conjE, assumption)+

end
